theory Spec2Isabelle
  imports Complex_Main
begin

section \<open>Python values\<close>

text \<open>
  The form widgets of the application hand \<open>create_record\<close> and \<open>update_record\<close> a
  dictionary whose values are integers (\<open>st.number_input\<close> with \<open>step=1\<close>), strings
  (\<open>st.text_input\<close>) and dates (\<open>st.date_input\<close>); \<open>None\<close>, booleans and floats are the
  other scalars a caller can pass. A float is its exact value, an infinity or a NaN; the two
  signed zeros compare equal in Python and are one value here.
\<close>

datatype pyfloat = Finite rat | PosInf | NegInf | NaN

datatype pyval =
    PNone
  | PBool bool
  | PInt int
  | PFloat pyfloat
  | PStr string
  | PDate int int int

text \<open>
  Python's \<open>==\<close> on these scalars: numbers (\<open>bool\<close> is a subclass of \<open>int\<close>, with
  \<open>False == 0\<close> and \<open>True == 1\<close>) are compared by exact numeric value across the three
  numeric types, a NaN is equal to nothing, and values of the other types are equal only to
  equal values of the same type.
\<close>

fun as_number :: "pyval \<Rightarrow> pyfloat option" where
  "as_number (PBool b) = Some (Finite (if b then 1 else 0))"
| "as_number (PInt i) = Some (Finite (of_int i))"
| "as_number (PFloat f) = Some f"
| "as_number v = None"

definition py_eq :: "pyval \<Rightarrow> pyval \<Rightarrow> bool" where
  "py_eq v w =
     (case (as_number v, as_number w) of
        (Some a, Some b) \<Rightarrow> a \<noteq> NaN \<and> a = b
      | (None, None) \<Rightarrow> v = w
      | _ \<Rightarrow> False)"

text \<open>\<open>v in xs\<close> for a list: some element is equal to \<open>v\<close>.\<close>

definition py_in :: "pyval \<Rightarrow> pyval list \<Rightarrow> bool" where
  "py_in v xs = list_ex (py_eq v) xs"

text \<open>Truth value of a scalar, as \<open>if param\<close> tests it.\<close>

fun truthy :: "pyval \<Rightarrow> bool" where
  "truthy PNone = False"
| "truthy (PBool b) = b"
| "truthy (PInt i) = (i \<noteq> 0)"
| "truthy (PFloat f) = (f \<noteq> Finite 0)"
| "truthy (PStr s) = (s \<noteq> [])"
| "truthy (PDate y m d) = True"

text \<open>\<open>sep.join(xs)\<close>.\<close>

fun join :: "string \<Rightarrow> string list \<Rightarrow> string" where
  "join sep [] = []"
| "join sep [x] = x"
| "join sep (x # y # ys) = x @ sep @ join sep (y # ys)"

text \<open>\<open>str(n)\<close> for an integer, used where a record id is formatted into a message.\<close>

definition digit_char :: "nat \<Rightarrow> char" where
  "digit_char d = char_of (48 + d)"

function str_nat :: "nat \<Rightarrow> string" where
  "str_nat n = (if n < 10 then [digit_char n] else str_nat (n div 10) @ [digit_char (n mod 10)])"
  by pat_completeness auto
termination
  by (relation "measure id") auto

declare str_nat.simps [simp del]

definition str_int :: "int \<Rightarrow> string" where
  "str_int i = (if i < 0 then CHR ''-'' # str_nat (nat (- i)) else str_nat (nat i))"

section \<open>The store, the driver and the user interface\<close>

text \<open>
  A result set as \<open>pandas\<close> materializes it: column names and rows. \<open>pd.DataFrame()\<close> has
  neither, and \<open>df.empty\<close> holds when either axis has length zero.
\<close>

record table =
  columns :: "string list"
  rows :: "pyval list list"

definition DataFrame :: table where
  "DataFrame = \<lparr>columns = [], rows = []\<rparr>"

definition df_empty :: "table \<Rightarrow> bool" where
  "df_empty df = (columns df = [] \<or> rows df = [])"

text \<open>
  Exceptions below \<open>Exception\<close>: the driver's \<open>mysql.connector.Error\<close>, the \<open>KeyError\<close> of a
  failed dictionary lookup (carrying the key), and any other.
\<close>

datatype exc = MySQLError string | KeyError string | OtherError string

text \<open>
  The database engine and the driver are outside the program. They are a parameter: what
  \<open>mysql.connector.connect\<close>, \<open>cursor.execute\<close>, \<open>conn.commit\<close> and \<open>pd.read_sql\<close> do on a
  store of type \<open>'st\<close>. \<open>connect\<close> and \<open>commit\<close> give the exception they raise, if any;
  \<open>execute\<close> gives the store as the session sees it afterwards together with
  \<open>cursor.rowcount\<close> (the number of rows the statement affected), or the exception;
  \<open>read_sql\<close> gives the materialized table or the exception.
  Creating a cursor and closing a cursor or a connection are taken not to fail.
\<close>

record 'st engine =
  connect :: "'st \<Rightarrow> exc option"
  execute :: "string \<Rightarrow> pyval list \<Rightarrow> 'st \<Rightarrow> exc + ('st \<times> nat)"
  commit :: "'st \<Rightarrow> exc option"
  read_sql :: "string \<Rightarrow> pyval list option \<Rightarrow> 'st \<Rightarrow> exc + table"

text \<open>The calls the program makes on the driver, in the order it makes them.\<close>

datatype event =
    Connect
  | Cursor
  | Execute string "pyval list"
  | ReadSql string "pyval list option"
  | Commit
  | CursorClose
  | ConnClose

text \<open>
  The messages shown to the user: \<open>st.error(f"{prefix}{e}")\<close> keeps the prefix and the
  exception apart, \<open>st.warning\<close> and \<open>st.success\<close> carry the text.
\<close>

datatype report = StError string exc | StWarning string | StSuccess string

text \<open>
  The world a call runs in: the committed store, the driver calls made so far and the
  messages shown so far. The driver opens connections with autocommit off (the default of
  \<open>mysql.connector\<close>): statements executed on a connection change that session's view of the
  store, \<open>commit\<close> makes the view the committed store, and a connection closed without a
  commit leaves the committed store as it was.
\<close>

record 'st world =
  committed :: 'st
  trace :: "event list"
  reports :: "report list"

definition emit :: "event \<Rightarrow> 'st world \<Rightarrow> 'st world" where
  "emit ev w = w\<lparr>trace := trace w @ [ev]\<rparr>"

definition report :: "report \<Rightarrow> 'st world \<Rightarrow> 'st world" where
  "report r w = w\<lparr>reports := reports w @ [r]\<rparr>"

text \<open>
  A call either returns a value or never returns because \<open>st.stop()\<close> ended the script
  run. \<open>st.stop()\<close> ends the run with a script-control exception that is not below
  \<open>Exception\<close>, so no \<open>except Exception\<close> handler of the program intercepts it.
\<close>

datatype 'a outcome = Returned 'a | Stopped

text \<open>The statements sent to the store among a list of driver calls.\<close>

fun statements :: "event list \<Rightarrow> (string \<times> pyval list) list" where
  "statements [] = []"
| "statements (Execute q ps # evs) = (q, ps) # statements evs"
| "statements (ReadSql q ps # evs) = (q, (case ps of None \<Rightarrow> [] | Some xs \<Rightarrow> xs)) # statements evs"
| "statements (ev # evs) = statements evs"

text \<open>Connections opened and not yet closed among a list of driver calls.\<close>

fun open_connections :: "event list \<Rightarrow> int" where
  "open_connections [] = 0"
| "open_connections (Connect # evs) = open_connections evs + 1"
| "open_connections (ConnClose # evs) = open_connections evs - 1"
| "open_connections (ev # evs) = open_connections evs"

section \<open>Connection provider and query executor\<close>

text \<open>
  \<open>get_db_connection\<close>: the connection's view of the store, or, when connecting raises,
  the error message followed by \<open>st.stop()\<close> (the result \<open>None\<close> here).
\<close>

definition get_db_connection :: "'st engine \<Rightarrow> 'st world \<Rightarrow> 'st option \<times> 'st world" where
  "get_db_connection e w =
     (case connect e (committed w) of
        Some ex \<Rightarrow> (None, report (StError ''Error connecting to the database: '' ex) w)
      | None \<Rightarrow> (Some (committed w), emit Connect w))"

text \<open>
  \<open>run_query\<close>: \<open>conn.close()\<close> is the statement after \<open>pd.read_sql\<close> inside the \<open>try\<close>; the
  handler reports and returns \<open>pd.DataFrame()\<close>. Nothing is committed.
\<close>

definition run_query ::
  "'st engine \<Rightarrow> string \<Rightarrow> pyval list option \<Rightarrow> 'st world \<Rightarrow> table outcome \<times> 'st world" where
  "run_query e query params w =
     (case get_db_connection e w of
        (None, w1) \<Rightarrow> (Stopped, w1)
      | (Some view, w1) \<Rightarrow>
          (case read_sql e query params view of
             Inl ex \<Rightarrow>
               (Returned DataFrame,
                report (StError ''Query Error: '' ex) (emit (ReadSql query params) w1))
           | Inr df \<Rightarrow>
               (Returned df, emit ConnClose (emit (ReadSql query params) w1))))"

section \<open>CRUD operations\<close>

text \<open>
  The dictionary \<open>inputs\<close> is the list of its items in insertion order (the keys are
  distinct); the comprehension \<open>{k: v for k, v in inputs.items() if v not in [None, "", 0]}\<close>
  keeps the items that pass the test, in order.
\<close>

definition filtered_inputs :: "(string \<times> pyval) list \<Rightarrow> (string \<times> pyval) list" where
  "filtered_inputs inputs = filter (\<lambda>(k, v). \<not> py_in v [PNone, PStr [], PInt 0]) inputs"

definition primary_keys :: "(string \<times> string) list" where
  "primary_keys =
     [(''Food_Listings'', ''Food_ID''),
      (''Providers'', ''Provider_ID''),
      (''Receivers'', ''Receiver_ID''),
      (''Claims'', ''Claim_ID'')]"

text \<open>
  The two handlers of each operation: \<open>except mysql.connector.Error\<close> first, with the
  operation's own prefix, then \<open>except Exception\<close>.
\<close>

definition on_exception :: "string \<Rightarrow> exc \<Rightarrow> 'st world \<Rightarrow> 'st world" where
  "on_exception prefix ex w =
     (case ex of
        MySQLError m \<Rightarrow> report (StError prefix ex) w
      | _ \<Rightarrow> report (StError ''Unexpected error: '' ex) w)"

text \<open>
  The \<open>finally\<close> block once \<open>cursor\<close> and \<open>conn\<close> are both bound. When
  \<open>get_db_connection\<close> stops the script neither name is bound and the block does nothing.
\<close>

definition release :: "'st world \<Rightarrow> 'st world" where
  "release w = emit ConnClose (emit CursorClose w)"

definition create_record ::
  "'st engine \<Rightarrow> string \<Rightarrow> (string \<times> pyval) list \<Rightarrow> 'st world \<Rightarrow> unit outcome \<times> 'st world" where
  "create_record e table_name inputs w =
     (case get_db_connection e w of
        (None, w1) \<Rightarrow> (Stopped, w1)
      | (Some view, w1) \<Rightarrow>
          (let w2 = emit Cursor w1;
               filtered = filtered_inputs inputs
           in if filtered = [] then
                (Returned (), release (report (StWarning ''No data to insert'') w2))
              else
                (let cols = join '', '' (map fst filtered);
                     placeholders = join '', '' (replicate (length filtered) ''%s'');
                     vals = map snd filtered;
                     query = ''INSERT INTO '' @ table_name @ '' ('' @ cols @ '') VALUES (''
                               @ placeholders @ '')'';
                     w3 = emit (Execute query vals) w2
                 in case execute e query vals view of
                      Inl ex \<Rightarrow>
                        (Returned (), release (on_exception ''Error creating record: '' ex w3))
                    | Inr (view', rowcount) \<Rightarrow>
                        (case commit e view' of
                           Some ex \<Rightarrow>
                             (Returned (),
                              release (on_exception ''Error creating record: '' ex (emit Commit w3)))
                         | None \<Rightarrow>
                             (Returned (),
                              release
                                (report (StSuccess (''Record created successfully in '' @ table_name))
                                   ((emit Commit w3)\<lparr>committed := view'\<rparr>)))))))"

definition update_record ::
  "'st engine \<Rightarrow> string \<Rightarrow> int \<Rightarrow> (string \<times> pyval) list \<Rightarrow> 'st world
     \<Rightarrow> unit outcome \<times> 'st world" where
  "update_record e table_name record_id inputs w =
     (case get_db_connection e w of
        (None, w1) \<Rightarrow> (Stopped, w1)
      | (Some view, w1) \<Rightarrow>
          (let w2 = emit Cursor w1
           in case map_of primary_keys table_name of
                None \<Rightarrow>
                  (Returned (),
                   release (on_exception ''Error updating record: '' (KeyError table_name) w2))
              | Some pk \<Rightarrow>
                  (let filtered = filtered_inputs inputs
                   in if filtered = [] then
                        (Returned (), release (report (StWarning ''No fields to update'') w2))
                      else
                        (let set_clause = join '', '' (map (\<lambda>k. k @ ''=%s'') (map fst filtered));
                             vals = map snd filtered @ [PInt record_id];
                             query = ''UPDATE '' @ table_name @ '' SET '' @ set_clause
                                       @ '' WHERE '' @ pk @ ''=%s'';
                             w3 = emit (Execute query vals) w2
                         in case execute e query vals view of
                              Inl ex \<Rightarrow>
                                (Returned (),
                                 release (on_exception ''Error updating record: '' ex w3))
                            | Inr (view', rowcount) \<Rightarrow>
                                (case commit e view' of
                                   Some ex \<Rightarrow>
                                     (Returned (),
                                      release
                                        (on_exception ''Error updating record: '' ex (emit Commit w3)))
                                 | None \<Rightarrow>
                                     (Returned (),
                                      release
                                        (report
                                           (if rowcount > 0 then
                                              StSuccess (''Record '' @ str_int record_id
                                                           @ '' updated successfully'')
                                            else
                                              StWarning (''No record found with '' @ pk @ '' = ''
                                                           @ str_int record_id))
                                           ((emit Commit w3)\<lparr>committed := view'\<rparr>))))))))"

text \<open>
  \<open>delete_record\<close>: for \<open>Food_Listings\<close> the claims of the listing are deleted on the same
  cursor first; \<open>cursor.rowcount\<close> read after the commit is that of the last statement
  executed, the delete by primary key.
\<close>

definition delete_record ::
  "'st engine \<Rightarrow> string \<Rightarrow> int \<Rightarrow> 'st world \<Rightarrow> unit outcome \<times> 'st world" where
  "delete_record e table_name record_id w =
     (case get_db_connection e w of
        (None, w1) \<Rightarrow> (Stopped, w1)
      | (Some view, w1) \<Rightarrow>
          (let w2 = emit Cursor w1
           in case map_of primary_keys table_name of
                None \<Rightarrow>
                  (Returned (),
                   release (on_exception ''Error deleting record: '' (KeyError table_name) w2))
              | Some pk \<Rightarrow>
                  (let claims_query = ''DELETE FROM Claims WHERE Food_ID=%s'';
                       w3 = (if table_name = ''Food_Listings''
                             then emit (Execute claims_query [PInt record_id]) w2 else w2);
                       dependent = (if table_name = ''Food_Listings''
                                    then execute e claims_query [PInt record_id] view
                                    else Inr (view, 0))
                   in case dependent of
                        Inl ex \<Rightarrow>
                          (Returned (), release (on_exception ''Error deleting record: '' ex w3))
                      | Inr (view1, rowcount1) \<Rightarrow>
                          (let query = ''DELETE FROM '' @ table_name @ '' WHERE '' @ pk @ ''=%s'';
                               w4 = emit (Execute query [PInt record_id]) w3
                           in case execute e query [PInt record_id] view1 of
                                Inl ex \<Rightarrow>
                                  (Returned (),
                                   release (on_exception ''Error deleting record: '' ex w4))
                              | Inr (view2, rowcount) \<Rightarrow>
                                  (case commit e view2 of
                                     Some ex \<Rightarrow>
                                       (Returned (),
                                        release
                                          (on_exception ''Error deleting record: '' ex
                                             (emit Commit w4)))
                                   | None \<Rightarrow>
                                       (Returned (),
                                        release
                                          (report
                                             (if rowcount > 0 then
                                                StSuccess (''Record '' @ str_int record_id
                                                             @ '' deleted successfully from ''
                                                             @ table_name)
                                              else
                                                StWarning (''No record found with '' @ pk @ '' = ''
                                                             @ str_int record_id))
                                             ((emit Commit w4)\<lparr>committed := view2\<rparr>))))))))"

section \<open>Analysis queries\<close>

text \<open>
  What \<open>px.bar\<close> and \<open>px.pie\<close> are called with: the table, the column roles (\<open>x\<close> and
  \<open>y\<close>, a single \<open>y\<close> column being a one-element list, or \<open>names\<close> and \<open>values\<close>), \<open>barmode\<close>
  for a bar chart, the title, the \<open>color\<close> column and the name of the colour sequence.
\<close>

datatype chart =
    px_bar table string "string list" "string option" string "string option" string
  | px_pie table string string string "string option" string

definition queries :: "(string \<times> string) list" where
  "queries =
     [
      (''Providers & Receivers by City'',
       ''\<newline>'' @
       ''            SELECT City,\<newline>'' @
       ''                   (SELECT COUNT(*) FROM Providers p2 WHERE p2.City = p.City) AS Providers_Count,\<newline>'' @
       ''                   (SELECT COUNT(*) FROM Receivers r WHERE r.City = p.City) AS Receivers_Count\<newline>'' @
       ''            FROM Providers p\<newline>'' @
       ''            GROUP BY City;\<newline>'' @
       ''        ''),
      (''Top Food Provider Type by Quantity'',
       ''\<newline>'' @
       ''            SELECT Type, SUM(f.Quantity) AS Total_Quantity\<newline>'' @
       ''            FROM Providers p\<newline>'' @
       ''            JOIN Food_Listings f ON p.Provider_ID=f.Provider_ID\<newline>'' @
       ''            GROUP BY Type\<newline>'' @
       ''            ORDER BY Total_Quantity DESC\<newline>'' @
       ''            LIMIT 5;\<newline>'' @
       ''        ''),
      (''Provider Contact Info by City'',
       ''\<newline>'' @
       ''            SELECT Name, Contact, Address\<newline>'' @
       ''            FROM Providers\<newline>'' @
       ''            WHERE City = %s;\<newline>'' @
       ''        ''),
      (''Top Receivers by Claimed Food'',
       ''\<newline>'' @
       ''            SELECT r.Name, r.Contact, SUM(f.Quantity) AS Total_Claimed\<newline>'' @
       ''            FROM Receivers r\<newline>'' @
       ''            JOIN Claims c ON r.Receiver_ID=c.Receiver_ID\<newline>'' @
       ''            JOIN Food_Listings f ON c.Food_ID=f.Food_ID\<newline>'' @
       ''            GROUP BY r.Receiver_ID\<newline>'' @
       ''            ORDER BY Total_Claimed DESC\<newline>'' @
       ''            LIMIT 10;\<newline>'' @
       ''        ''),
      (''Total Food Quantity Available'',
       ''SELECT SUM(Quantity) AS Total_Food_Quantity FROM Food_Listings;''),
      (''City with Most Food Listings'',
       ''\<newline>'' @
       ''            SELECT p.City, COUNT(*) AS Listings_Count\<newline>'' @
       ''            FROM Providers p\<newline>'' @
       ''            JOIN Food_Listings f ON p.Provider_ID = f.Provider_ID\<newline>'' @
       ''            GROUP BY p.City\<newline>'' @
       ''            ORDER BY Listings_Count DESC\<newline>'' @
       ''            LIMIT 1;\<newline>'' @
       ''        ''),
      (''Top Food Types Available'',
       ''\<newline>'' @
       ''            SELECT Food_Type, COUNT(*) AS Count\<newline>'' @
       ''            FROM Food_Listings\<newline>'' @
       ''            GROUP BY Food_Type\<newline>'' @
       ''            ORDER BY Count DESC\<newline>'' @
       ''            LIMIT 5;\<newline>'' @
       ''        ''),
      (''Claims Count per Food Item'',
       ''\<newline>'' @
       ''            SELECT f.Food_Name, COUNT(*) AS Claims_Count\<newline>'' @
       ''            FROM Food_Listings f\<newline>'' @
       ''            JOIN Claims c ON f.Food_ID = c.Food_ID\<newline>'' @
       ''            GROUP BY f.Food_ID;\<newline>'' @
       ''        ''),
      (''Top Provider by Successful Claims'',
       ''\<newline>'' @
       ''            SELECT p.Name, COUNT(*) AS Successful_Claims\<newline>'' @
       ''            FROM Providers p\<newline>'' @
       ''            JOIN Food_Listings f ON p.Provider_ID = f.Provider_ID\<newline>'' @
       ''            JOIN Claims c ON f.Food_ID = c.Food_ID\<newline>'' @
       ''            WHERE c.Status = 'Completed'\<newline>'' @
       ''            GROUP BY p.Provider_ID\<newline>'' @
       ''            ORDER BY Successful_Claims DESC\<newline>'' @
       ''            LIMIT 1;\<newline>'' @
       ''        ''),
      (''Claims Status Percentage'',
       ''\<newline>'' @
       ''            SELECT Status, \<newline>'' @
       ''                   COUNT(*) AS Count,\<newline>'' @
       ''                   ROUND(100 * COUNT(*) / (SELECT COUNT(*) FROM Claims), 2) AS Percentage\<newline>'' @
       ''            FROM Claims\<newline>'' @
       ''            GROUP BY Status;\<newline>'' @
       ''        ''),
      (''Avg Quantity Claimed per Receiver'',
       ''\<newline>'' @
       ''            SELECT r.Name, AVG(f.Quantity) AS Avg_Quantity_Claimed\<newline>'' @
       ''            FROM Receivers r\<newline>'' @
       ''            JOIN Claims c ON r.Receiver_ID = c.Receiver_ID\<newline>'' @
       ''            JOIN Food_Listings f ON c.Food_ID = f.Food_ID\<newline>'' @
       ''            GROUP BY r.Receiver_ID;\<newline>'' @
       ''        ''),
      (''Most Claimed Meal Type'',
       ''\<newline>'' @
       ''            SELECT f.Meal_Type, COUNT(*) AS Claims_Count\<newline>'' @
       ''            FROM Food_Listings f\<newline>'' @
       ''            JOIN Claims c ON f.Food_ID = c.Food_ID\<newline>'' @
       ''            GROUP BY f.Meal_Type\<newline>'' @
       ''            ORDER BY Claims_Count DESC;\<newline>'' @
       ''        ''),
      (''Total Food Donated by Provider'',
       ''\<newline>'' @
       ''            SELECT p.Name, SUM(f.Quantity) AS Total_Quantity_Donated\<newline>'' @
       ''            FROM Providers p\<newline>'' @
       ''            JOIN Food_Listings f ON p.Provider_ID = f.Provider_ID\<newline>'' @
       ''            GROUP BY p.Provider_ID\<newline>'' @
       ''            ORDER BY Total_Quantity_Donated DESC;\<newline>'' @
       ''        ''),
      (''Top Cities by Claimed Food Quantity'',
       ''\<newline>'' @
       ''            SELECT p.City, SUM(f.Quantity) AS Total_Claimed\<newline>'' @
       ''            FROM Providers p\<newline>'' @
       ''            JOIN Food_Listings f ON p.Provider_ID = f.Provider_ID\<newline>'' @
       ''            JOIN Claims c ON f.Food_ID = c.Food_ID\<newline>'' @
       ''            WHERE c.Status='Completed'\<newline>'' @
       ''            GROUP BY p.City\<newline>'' @
       ''            ORDER BY Total_Claimed DESC\<newline>'' @
       ''            LIMIT 5;\<newline>'' @
       ''        ''),
      (''Providers with Most Food Listings'',
       ''\<newline>'' @
       ''            SELECT p.Name, COUNT(f.Food_ID) AS Listings_Count\<newline>'' @
       ''            FROM Providers p\<newline>'' @
       ''            JOIN Food_Listings f ON p.Provider_ID = f.Provider_ID\<newline>'' @
       ''            GROUP BY p.Provider_ID\<newline>'' @
       ''            ORDER BY Listings_Count DESC\<newline>'' @
       ''            LIMIT 5;\<newline>'' @
       ''        ''),
      (''Expired or Soon-to-Expire Food Items'',
       ''\<newline>'' @
       ''            SELECT Food_Name, Quantity, Expiry_Date, Location\<newline>'' @
       ''            FROM Food_Listings\<newline>'' @
       ''            WHERE Expiry_Date <= DATE_ADD(CURDATE(), INTERVAL 2 DAY)\<newline>'' @
       ''            ORDER BY Expiry_Date ASC;\<newline>'' @
       ''        '')
     ]"

definition charts :: "(string \<times> (table \<Rightarrow> chart)) list" where
  "charts =
     [
      (''Providers & Receivers by City'',
       \<lambda>df. px_bar df ''City'' [''Providers_Count'', ''Receivers_Count''] (Some ''group'') ''Number of Providers and Receivers by City'' None
           ''px.colors.qualitative.Pastel''),
      (''Top Food Provider Type by Quantity'',
       \<lambda>df. px_bar df ''Type'' [''Total_Quantity''] None ''Top Food Provider Types by Quantity'' (Some ''Type'')
           ''px.colors.qualitative.Set2''),
      (''Top Receivers by Claimed Food'',
       \<lambda>df. px_bar df ''Name'' [''Total_Claimed''] None ''Top Receivers by Claimed Food'' (Some ''Name'')
           ''px.colors.qualitative.Vivid''),
      (''Top Food Types Available'',
       \<lambda>df. px_bar df ''Food_Type'' [''Count''] None ''Top Food Types Available'' (Some ''Food_Type'')
           ''px.colors.qualitative.Pastel1''),
      (''Avg Quantity Claimed per Receiver'',
       \<lambda>df. px_bar df ''Name'' [''Avg_Quantity_Claimed''] None ''Average Quantity Claimed per Receiver'' (Some ''Name'')
           ''px.colors.qualitative.Pastel''),
      (''Claims Status Percentage'',
       \<lambda>df. px_pie df ''Status'' ''Percentage'' ''Claims Status Percentage'' (Some ''Status'')
           ''px.colors.sequential.RdBu''),
      (''Claims Count per Food Item'',
       \<lambda>df. px_bar df ''Food_Name'' [''Claims_Count''] None ''Claims Count per Food Item'' (Some ''Food_Name'')
           ''px.colors.qualitative.Set3''),
      (''Most Claimed Meal Type'',
       \<lambda>df. px_bar df ''Meal_Type'' [''Claims_Count''] None ''Most Claimed Meal Type'' (Some ''Meal_Type'')
           ''px.colors.qualitative.Dark24''),
      (''Total Food Donated by Provider'',
       \<lambda>df. px_bar df ''Name'' [''Total_Quantity_Donated''] None ''Total Food Donated by Provider'' (Some ''Name'')
           ''px.colors.qualitative.Bold''),
      (''Top Cities by Claimed Food Quantity'',
       \<lambda>df. px_bar df ''City'' [''Total_Claimed''] None ''Top Cities by Claimed Food Quantity'' (Some ''City'')
           ''px.colors.qualitative.Prism''),
      (''Providers with Most Food Listings'',
       \<lambda>df. px_bar df ''Name'' [''Listings_Count''] None ''Providers with Most Food Listings'' (Some ''Name'')
           ''px.colors.qualitative.Set3''),
      (''Expired or Soon-to-Expire Food Items'',
       \<lambda>df. px_bar df ''Food_Name'' [''Quantity''] None ''Expired or Soon-to-Expire Food Items'' (Some ''Food_Name'')
           ''px.colors.sequential.Agsunset'')
     ]"

text \<open>
  \<open>analysis_query\<close>: \<open>param\<close> is \<open>None\<close> by default; the parameter tuple is
  \<open>(param,) if param else None\<close>. The function returns \<open>(df, fig)\<close>, or \<open>(None, None)\<close> for
  a name that is not a key of \<open>queries\<close>.
\<close>

definition analysis_query ::
  "'st engine \<Rightarrow> string \<Rightarrow> pyval \<Rightarrow> 'st world
     \<Rightarrow> (table option \<times> chart option) outcome \<times> 'st world" where
  "analysis_query e option param w =
     (case map_of queries option of
        Some template \<Rightarrow>
          (case run_query e template (if truthy param then Some [param] else None) w of
             (Stopped, w1) \<Rightarrow> (Stopped, w1)
           | (Returned df, w1) \<Rightarrow>
               (Returned
                  (Some df,
                   (case map_of charts option of
                      Some rule \<Rightarrow> if \<not> df_empty df then Some (rule df) else None
                    | None \<Rightarrow> None)),
                w1))
      | None \<Rightarrow> (Returned (None, None), w))"

section \<open>Observing a call\<close>

text \<open>The driver calls made between an earlier world and a later one.\<close>

definition calls_since :: "'st world \<Rightarrow> 'st world \<Rightarrow> event list" where
  "calls_since w w' = drop (length (trace w)) (trace w')"

text \<open>
  Concrete environments to run the operations in. The store of a scripted engine is the
  number of rows changed so far; what a statement does is decided by its text alone: it
  raises, or it affects a given number of rows. Connecting and committing succeed.
\<close>

definition scripted ::
  "(string \<Rightarrow> exc + nat) \<Rightarrow> (string \<Rightarrow> exc + table) \<Rightarrow> nat engine" where
  "scripted stmt qry =
     \<lparr>connect = \<lambda>s. None,
      execute = \<lambda>q ps s. (case stmt q of Inl ex \<Rightarrow> Inl ex | Inr n \<Rightarrow> Inr (s + n, n)),
      commit = \<lambda>s. None,
      read_sql = \<lambda>q ps s. qry q\<rparr>"

text \<open>A server that cannot be reached.\<close>

definition unreachable :: "nat engine" where
  "unreachable =
     (scripted (\<lambda>q. Inr 0) (\<lambda>q. Inr DataFrame))
       \<lparr>connect := \<lambda>s. Some (MySQLError ''Connection refused'')\<rparr>"

text \<open>A server that rejects every statement.\<close>

definition rejecting :: "nat engine" where
  "rejecting =
     scripted (\<lambda>q. Inl (MySQLError ''You have an error in your SQL syntax''))
       (\<lambda>q. Inl (MySQLError ''You have an error in your SQL syntax''))"

text \<open>The world before any call: nothing changed, nothing called, nothing shown.\<close>

definition start :: "nat world" where
  "start = \<lparr>committed = 0, trace = [], reports = []\<rparr>"

text \<open>
  Claims exist for a listing that does not: deleting the claims of a listing affects two
  rows, every other statement affects none.
\<close>

definition orphaned :: "nat engine" where
  "orphaned =
     scripted (\<lambda>q. if q = ''DELETE FROM Claims WHERE Food_ID=%s'' then Inr 2 else Inr 0)
       (\<lambda>q. Inr DataFrame)"

text \<open>
  The listing is still referenced from elsewhere: deleting claims affects one row, deleting
  from \<open>Food_Listings\<close> raises.
\<close>

definition guarded :: "nat engine" where
  "guarded =
     scripted
       (\<lambda>q. if q = ''DELETE FROM Food_Listings WHERE Food_ID=%s''
            then Inl (MySQLError ''Cannot delete or update a parent row'') else Inr 1)
       (\<lambda>q. Inr DataFrame)"

text \<open>
  A server that accepts every statement: each affects one row, each query yields one row.
\<close>

definition accepting :: "nat engine" where
  "accepting =
     scripted (\<lambda>q. Inr 1)
       (\<lambda>q. Inr \<lparr>columns = [''Total_Food_Quantity''], rows = [[PInt 15]]\<rparr>)"

text \<open>
  The specification's "the template expects a parameter": the SQL text holds the positional
  placeholder \<open>%s\<close>. The program has no such test; this predicate is what the behaviour
  of \<open>analysis_query\<close> is compared with.
\<close>

fun has_placeholder :: "string \<Rightarrow> bool" where
  "has_placeholder [] = False"
| "has_placeholder (c # cs) = ((c = CHR ''%'' \<and> take 1 cs = ''s'') \<or> has_placeholder cs)"

text \<open>A store without claims: every statement affects no row, every query has no rows.\<close>

definition vacant :: "nat engine" where
  "vacant = scripted (\<lambda>q. Inr 0) (\<lambda>q. Inr \<lparr>columns = [''Food_Type'', ''Count''], rows = []\<rparr>)"

text \<open>A store with listings of two food types.\<close>

definition stocked :: "nat engine" where
  "stocked =
     scripted (\<lambda>q. Inr 1)
       (\<lambda>q. Inr \<lparr>columns = [''Food_Type'', ''Count''],
                  rows = [[PStr ''Vegan'', PInt 3], [PStr ''Vegetarian'', PInt 2]]\<rparr>)"

section \<open>Query executor: results and errors\<close>

text \<open>
  C1 (as amended). When the connection opens, \<open>run_query\<close> returns: the materialized table
  with nothing reported when \<open>pd.read_sql\<close> succeeds, and the empty table together with one
  reported \<open>Query Error\<close> message when it raises, whatever the query text and parameters.
  When the connection cannot be opened, \<open>get_db_connection\<close> reports the connection error
  and stops the script run, so \<open>run_query\<close> does not return.
\<close>

theorem run_query_returns_or_stops:
  "(connect e (committed w) = None \<longrightarrow>
      (case read_sql e query params (committed w) of
         Inr df \<Rightarrow>
           fst (run_query e query params w) = Returned df \<and>
           reports (snd (run_query e query params w)) = reports w
       | Inl ex \<Rightarrow>
           fst (run_query e query params w) = Returned DataFrame \<and> df_empty DataFrame \<and>
           reports (snd (run_query e query params w)) = reports w @ [StError ''Query Error: '' ex]))
   \<and> (\<forall>ex. connect e (committed w) = Some ex \<longrightarrow>
          fst (run_query e query params w) = Stopped \<and>
          reports (snd (run_query e query params w))
            = reports w @ [StError ''Error connecting to the database: '' ex])"
  by (simp add: run_query_def get_db_connection_def report_def emit_def df_empty_def DataFrame_def
           split: sum.splits option.splits)

text \<open>
  The malformed statement \<open>SELEC * FORM x\<close> on a server that rejects it, and any statement
  on a server that cannot be reached.
\<close>

theorem run_query_returns_or_stops_witness:
  "connect rejecting (committed start) = None
   \<and> fst (run_query rejecting ''SELEC * FORM x'' None start) = Returned DataFrame
   \<and> reports (snd (run_query rejecting ''SELEC * FORM x'' None start))
       = [StError ''Query Error: '' (MySQLError ''You have an error in your SQL syntax'')]
   \<and> connect unreachable (committed start) = Some (MySQLError ''Connection refused'')
   \<and> fst (run_query unreachable ''SELECT 1'' None start) = Stopped"
  using run_query_returns_or_stops [of rejecting start "''SELEC * FORM x''" None]
    run_query_returns_or_stops [of unreachable start "''SELECT 1''" None]
  by (simp add: rejecting_def unreachable_def scripted_def start_def)

text \<open>
  C1 as stated fails: with the server unreachable \<open>run_query\<close> returns no table at all.
\<close>

theorem run_query_stops_counterexample:
  "run_query unreachable ''SELECT 1'' None start =
     (Stopped,
      \<lparr>committed = 0, trace = [],
       reports = [StError ''Error connecting to the database: ''
                    (MySQLError ''Connection refused'')]\<rparr>)"
  by (simp add: run_query_def get_db_connection_def report_def unreachable_def scripted_def
        start_def)

text \<open>
  C5 fails on the error path: when \<open>pd.read_sql\<close> raises, control passes to the handler
  and \<open>conn.close()\<close> is never called, so \<open>run_query\<close> returns with the connection it
  opened still open. (The CRUD operations close theirs in a \<open>finally\<close> block.)
\<close>

theorem run_query_error_path_leaves_connection_open:
  "run_query rejecting ''SELEC * FORM x'' None start =
     (Returned DataFrame,
      \<lparr>committed = 0, trace = [Connect, ReadSql ''SELEC * FORM x'' None],
       reports = [StError ''Query Error: ''
                    (MySQLError ''You have an error in your SQL syntax'')]\<rparr>)
   \<and> open_connections (trace (snd (run_query rejecting ''SELEC * FORM x'' None start))) = 1"
  by (simp add: run_query_def get_db_connection_def report_def emit_def rejecting_def
        scripted_def start_def)

section \<open>Deleting a food listing\<close>

lemma calls_since_append [simp]:
  "trace w' = trace w @ evs \<Longrightarrow> calls_since w w' = evs"
  by (simp add: calls_since_def)

text \<open>
  C2. When nothing raises, \<open>delete_record("Food_Listings", record_id)\<close> sends the deletion of
  the claims with that \<open>Food_ID\<close>, then the deletion of the listing by primary key, then
  commits, whatever the store holds (so also when no such listing exists). The message is the
  warning \<open>No record found\<close> exactly when the deletion by primary key affected zero rows; the
  number of claims removed plays no part.
\<close>

theorem delete_food_listing_cascades:
  assumes "connect e (committed w) = None"
    and "execute e ''DELETE FROM Claims WHERE Food_ID=%s'' [PInt record_id] (committed w)
           = Inr (view1, claims_removed)"
    and "execute e ''DELETE FROM Food_Listings WHERE Food_ID=%s'' [PInt record_id] view1
           = Inr (view2, rowcount)"
    and "commit e view2 = None"
  shows "delete_record e ''Food_Listings'' record_id w =
           (Returned (),
            \<lparr>committed = view2,
             trace = trace w @
               [Connect, Cursor,
                Execute ''DELETE FROM Claims WHERE Food_ID=%s'' [PInt record_id],
                Execute ''DELETE FROM Food_Listings WHERE Food_ID=%s'' [PInt record_id],
                Commit, CursorClose, ConnClose],
             reports = reports w @
               [if rowcount = 0
                then StWarning (''No record found with Food_ID = '' @ str_int record_id)
                else StSuccess (''Record '' @ str_int record_id
                                  @ '' deleted successfully from Food_Listings'')]\<rparr>)"
  using assms
  by (simp add: delete_record_def get_db_connection_def primary_keys_def Let_def
        emit_def report_def release_def)

text \<open>Two claims removed, no listing found: the warning is shown all the same.\<close>

theorem delete_food_listing_cascades_witness:
  "connect orphaned (committed start) = None
   \<and> execute orphaned ''DELETE FROM Claims WHERE Food_ID=%s'' [PInt 7] (committed start) = Inr (2, 2)
   \<and> execute orphaned ''DELETE FROM Food_Listings WHERE Food_ID=%s'' [PInt 7] 2 = Inr (2, 0)
   \<and> commit orphaned 2 = None
   \<and> delete_record orphaned ''Food_Listings'' 7 start =
           (Returned (),
            \<lparr>committed = 2,
             trace =
               [Connect, Cursor,
                Execute ''DELETE FROM Claims WHERE Food_ID=%s'' [PInt 7],
                Execute ''DELETE FROM Food_Listings WHERE Food_ID=%s'' [PInt 7],
                Commit, CursorClose, ConnClose],
             reports = [StWarning ''No record found with Food_ID = 7'']\<rparr>)"
proof -
  have c: "connect orphaned (committed start) = None"
    by (simp add: orphaned_def scripted_def)
  have x1: "execute orphaned ''DELETE FROM Claims WHERE Food_ID=%s'' [PInt 7] (committed start)
              = Inr (2, 2)"
    by (simp add: orphaned_def scripted_def start_def)
  have x2: "execute orphaned ''DELETE FROM Food_Listings WHERE Food_ID=%s'' [PInt 7] 2 = Inr (2, 0)"
    by (simp add: orphaned_def scripted_def)
  have k: "commit orphaned 2 = None"
    by (simp add: orphaned_def scripted_def)
  have s: "str_int 7 = ''7''"
    by code_simp
  show ?thesis
    using c x1 x2 k delete_food_listing_cascades [OF c x1 x2 k] s
    by (simp add: start_def)
qed

text \<open>The driver calls of \<open>delete_record("Food_Listings", record_id)\<close> on every path.\<close>

lemma delete_food_listing_calls:
  "calls_since w (snd (delete_record e ''Food_Listings'' record_id w)) =
     (case connect e (committed w) of
        Some cex \<Rightarrow> []
      | None \<Rightarrow>
          [Connect, Cursor, Execute ''DELETE FROM Claims WHERE Food_ID=%s'' [PInt record_id]] @
          (case execute e ''DELETE FROM Claims WHERE Food_ID=%s'' [PInt record_id] (committed w) of
             Inl ex \<Rightarrow> []
           | Inr (view1, n) \<Rightarrow>
               Execute ''DELETE FROM Food_Listings WHERE Food_ID=%s'' [PInt record_id] #
               (case execute e ''DELETE FROM Food_Listings WHERE Food_ID=%s'' [PInt record_id] view1 of
                  Inl ex \<Rightarrow> []
                | Inr (view2, rowcount) \<Rightarrow> [Commit])) @
          [CursorClose, ConnClose])"
  by (simp add: delete_record_def get_db_connection_def primary_keys_def Let_def
        emit_def report_def release_def on_exception_def calls_since_def
        split: option.splits sum.splits exc.splits prod.splits)

text \<open>
  C10. \<open>delete_record("Food_Listings", record_id)\<close> commits at most once, and only after
  both deletions have been sent. If the deletion by primary key raises, no commit is issued:
  the connection is closed with neither deletion committed, the committed store is as it was,
  and the error is reported.
\<close>

theorem delete_food_listing_single_commit:
  "(Commit \<in> set (calls_since w (snd (delete_record e ''Food_Listings'' record_id w))) \<longrightarrow>
      calls_since w (snd (delete_record e ''Food_Listings'' record_id w)) =
        [Connect, Cursor,
         Execute ''DELETE FROM Claims WHERE Food_ID=%s'' [PInt record_id],
         Execute ''DELETE FROM Food_Listings WHERE Food_ID=%s'' [PInt record_id],
         Commit, CursorClose, ConnClose])
   \<and> (\<forall>view1 n ex.
         connect e (committed w) = None \<longrightarrow>
         execute e ''DELETE FROM Claims WHERE Food_ID=%s'' [PInt record_id] (committed w)
           = Inr (view1, n) \<longrightarrow>
         execute e ''DELETE FROM Food_Listings WHERE Food_ID=%s'' [PInt record_id] view1
           = Inl ex \<longrightarrow>
         committed (snd (delete_record e ''Food_Listings'' record_id w)) = committed w \<and>
         calls_since w (snd (delete_record e ''Food_Listings'' record_id w)) =
           [Connect, Cursor,
            Execute ''DELETE FROM Claims WHERE Food_ID=%s'' [PInt record_id],
            Execute ''DELETE FROM Food_Listings WHERE Food_ID=%s'' [PInt record_id],
            CursorClose, ConnClose] \<and>
         reports (snd (delete_record e ''Food_Listings'' record_id w)) =
           reports w @ [StError (case ex of MySQLError m \<Rightarrow> ''Error deleting record: ''
                                  | _ \<Rightarrow> ''Unexpected error: '') ex])"
proof (intro conjI allI impI)
  assume "Commit \<in> set (calls_since w (snd (delete_record e ''Food_Listings'' record_id w)))"
  then show "calls_since w (snd (delete_record e ''Food_Listings'' record_id w)) =
        [Connect, Cursor,
         Execute ''DELETE FROM Claims WHERE Food_ID=%s'' [PInt record_id],
         Execute ''DELETE FROM Food_Listings WHERE Food_ID=%s'' [PInt record_id],
         Commit, CursorClose, ConnClose]"
    unfolding delete_food_listing_calls
    by (cases "connect e (committed w)";
        cases "execute e ''DELETE FROM Claims WHERE Food_ID=%s'' [PInt record_id] (committed w)")
       (auto split: sum.splits)
next
  fix view1 n ex
  assume a: "connect e (committed w) = None"
    "execute e ''DELETE FROM Claims WHERE Food_ID=%s'' [PInt record_id] (committed w) = Inr (view1, n)"
    "execute e ''DELETE FROM Food_Listings WHERE Food_ID=%s'' [PInt record_id] view1 = Inl ex"
  have r: "delete_record e ''Food_Listings'' record_id w =
      (Returned (),
       \<lparr>committed = committed w,
        trace = trace w @ [Connect, Cursor,
            Execute ''DELETE FROM Claims WHERE Food_ID=%s'' [PInt record_id],
            Execute ''DELETE FROM Food_Listings WHERE Food_ID=%s'' [PInt record_id],
            CursorClose, ConnClose],
        reports = reports w @ [StError (case ex of MySQLError m \<Rightarrow> ''Error deleting record: ''
                                  | _ \<Rightarrow> ''Unexpected error: '') ex]\<rparr>)"
    using a
    by (simp add: delete_record_def get_db_connection_def primary_keys_def Let_def
          emit_def report_def release_def on_exception_def split: exc.splits)
  show "committed (snd (delete_record e ''Food_Listings'' record_id w)) = committed w"
    by (simp add: r)
  show "calls_since w (snd (delete_record e ''Food_Listings'' record_id w)) =
           [Connect, Cursor,
            Execute ''DELETE FROM Claims WHERE Food_ID=%s'' [PInt record_id],
            Execute ''DELETE FROM Food_Listings WHERE Food_ID=%s'' [PInt record_id],
            CursorClose, ConnClose]"
    by (simp add: r)
  show "reports (snd (delete_record e ''Food_Listings'' record_id w)) =
           reports w @ [StError (case ex of MySQLError m \<Rightarrow> ''Error deleting record: ''
                                  | _ \<Rightarrow> ''Unexpected error: '') ex]"
    by (simp add: r)
qed

text \<open>
  A listing whose deletion is refused after one claim was deleted, and a run that commits.
\<close>

theorem delete_food_listing_single_commit_witness:
  "connect guarded (committed start) = None
   \<and> execute guarded ''DELETE FROM Claims WHERE Food_ID=%s'' [PInt 7] (committed start) = Inr (1, 1)
   \<and> execute guarded ''DELETE FROM Food_Listings WHERE Food_ID=%s'' [PInt 7] 1
       = Inl (MySQLError ''Cannot delete or update a parent row'')
   \<and> committed (snd (delete_record guarded ''Food_Listings'' 7 start)) = 0
   \<and> calls_since start (snd (delete_record guarded ''Food_Listings'' 7 start)) =
           [Connect, Cursor,
            Execute ''DELETE FROM Claims WHERE Food_ID=%s'' [PInt 7],
            Execute ''DELETE FROM Food_Listings WHERE Food_ID=%s'' [PInt 7],
            CursorClose, ConnClose]
   \<and> reports (snd (delete_record guarded ''Food_Listings'' 7 start)) =
           [StError ''Error deleting record: '' (MySQLError ''Cannot delete or update a parent row'')]
   \<and> Commit \<in> set (calls_since start (snd (delete_record orphaned ''Food_Listings'' 7 start)))
   \<and> calls_since start (snd (delete_record orphaned ''Food_Listings'' 7 start)) =
        [Connect, Cursor,
         Execute ''DELETE FROM Claims WHERE Food_ID=%s'' [PInt 7],
         Execute ''DELETE FROM Food_Listings WHERE Food_ID=%s'' [PInt 7],
         Commit, CursorClose, ConnClose]"
proof -
  have c: "connect guarded (committed start) = None"
    by (simp add: guarded_def scripted_def)
  have x1: "execute guarded ''DELETE FROM Claims WHERE Food_ID=%s'' [PInt 7] (committed start)
              = Inr (1, 1)"
    by (simp add: guarded_def scripted_def start_def)
  have x2: "execute guarded ''DELETE FROM Food_Listings WHERE Food_ID=%s'' [PInt 7] 1
              = Inl (MySQLError ''Cannot delete or update a parent row'')"
    by (simp add: guarded_def scripted_def)
  have o: "Commit \<in> set (calls_since start (snd (delete_record orphaned ''Food_Listings'' 7 start)))"
    by (simp add: delete_record_def get_db_connection_def primary_keys_def Let_def
          emit_def report_def release_def calls_since_def orphaned_def scripted_def start_def)
  show ?thesis
    using c x1 x2 o
      delete_food_listing_single_commit [of start guarded 7]
      delete_food_listing_single_commit [of start orphaned 7]
    by (simp add: start_def)
qed

section \<open>Field filtering in create and update\<close>

text \<open>
  The test \<open>v not in [None, "", 0]\<close> of the dictionary comprehension, value by value.
\<close>

lemma py_in_drop_list:
  "py_in v [PNone, PStr [], PInt 0]
     \<longleftrightarrow> v = PNone \<or> v = PStr [] \<or> v = PInt 0 \<or> v = PBool False \<or> v = PFloat (Finite 0)"
  by (cases v) (auto simp: py_in_def py_eq_def)

lemma filtered_inputs_set:
  "set (filtered_inputs inputs) =
     {(k, v). (k, v) \<in> set inputs \<and> v \<noteq> PNone \<and> v \<noteq> PStr [] \<and> v \<noteq> PInt 0
              \<and> v \<noteq> PBool False \<and> v \<noteq> PFloat (Finite 0)}"
  by (auto simp: filtered_inputs_def py_in_drop_list)

text \<open>
  What \<open>create_record\<close> and \<open>update_record\<close> do when nothing is left after filtering, and the
  statements they send on every path.
\<close>

lemma create_record_empty:
  assumes "connect e (committed w) = None" and "filtered_inputs inputs = []"
  shows "create_record e table_name inputs w =
           (Returned (),
            \<lparr>committed = committed w,
             trace = trace w @ [Connect, Cursor, CursorClose, ConnClose],
             reports = reports w @ [StWarning ''No data to insert'']\<rparr>)"
  using assms
  by (simp add: create_record_def get_db_connection_def Let_def emit_def report_def release_def)

lemma update_record_empty:
  assumes "connect e (committed w) = None" and "filtered_inputs inputs = []"
    and "map_of primary_keys table_name = Some pk"
  shows "update_record e table_name record_id inputs w =
           (Returned (),
            \<lparr>committed = committed w,
             trace = trace w @ [Connect, Cursor, CursorClose, ConnClose],
             reports = reports w @ [StWarning ''No fields to update'']\<rparr>)"
  using assms
  by (simp add: update_record_def get_db_connection_def Let_def emit_def report_def release_def)

lemma create_record_calls:
  "statements (calls_since w (snd (create_record e table_name inputs w))) =
     (if connect e (committed w) = None \<and> filtered_inputs inputs \<noteq> [] then
        [(''INSERT INTO '' @ table_name @ '' (''
            @ join '', '' (map fst (filtered_inputs inputs)) @ '') VALUES (''
            @ join '', '' (replicate (length (filtered_inputs inputs)) ''%s'') @ '')'',
          map snd (filtered_inputs inputs))]
      else [])"
  by (simp add: create_record_def get_db_connection_def Let_def emit_def report_def release_def
        on_exception_def calls_since_def split: option.splits sum.splits exc.splits prod.splits)

lemma update_record_calls:
  "statements (calls_since w (snd (update_record e table_name record_id inputs w))) =
     (case map_of primary_keys table_name of
        None \<Rightarrow> []
      | Some pk \<Rightarrow>
          if connect e (committed w) = None \<and> filtered_inputs inputs \<noteq> [] then
            [(''UPDATE '' @ table_name @ '' SET ''
                @ join '', '' (map (\<lambda>k. k @ ''=%s'') (map fst (filtered_inputs inputs)))
                @ '' WHERE '' @ pk @ ''=%s'',
              map snd (filtered_inputs inputs) @ [PInt record_id])]
          else [])"
  by (simp add: update_record_def get_db_connection_def Let_def emit_def report_def release_def
        on_exception_def calls_since_def split: option.splits sum.splits exc.splits prod.splits)

text \<open>
  C3. With the connection open, \<open>create_record\<close> and \<open>update_record\<close> build their statement
  from \<open>filtered_inputs\<close>, whose entries are entries of the field map with a value that is
  not \<open>None\<close>, not the empty string and not the number zero. If nothing is left, no
  statement is sent and a warning is shown (\<open>update_record\<close>: for a table of the fixed set,
  whose primary key the lookup finds). Otherwise \<open>create_record\<close> sends exactly one INSERT,
  naming the surviving columns and binding the surviving values, and \<open>update_record\<close> sends
  exactly one UPDATE setting the surviving columns.
\<close>

theorem create_update_drop_empty_fields:
  assumes "connect e (committed w) = None"
  shows
    "(\<forall>(k, v) \<in> set (filtered_inputs inputs).
        (k, v) \<in> set inputs \<and> v \<noteq> PNone \<and> v \<noteq> PStr [] \<and> v \<noteq> PInt 0)
     \<and> (filtered_inputs inputs = [] \<longrightarrow>
          create_record e table_name inputs w =
            (Returned (),
             \<lparr>committed = committed w,
              trace = trace w @ [Connect, Cursor, CursorClose, ConnClose],
              reports = reports w @ [StWarning ''No data to insert'']\<rparr>))
     \<and> (\<forall>pk. filtered_inputs inputs = [] \<longrightarrow> map_of primary_keys table_name = Some pk \<longrightarrow>
          update_record e table_name record_id inputs w =
            (Returned (),
             \<lparr>committed = committed w,
              trace = trace w @ [Connect, Cursor, CursorClose, ConnClose],
              reports = reports w @ [StWarning ''No fields to update'']\<rparr>))
     \<and> (filtered_inputs inputs \<noteq> [] \<longrightarrow>
          statements (calls_since w (snd (create_record e table_name inputs w))) =
            [(''INSERT INTO '' @ table_name @ '' (''
                @ join '', '' (map fst (filtered_inputs inputs)) @ '') VALUES (''
                @ join '', '' (replicate (length (filtered_inputs inputs)) ''%s'') @ '')'',
              map snd (filtered_inputs inputs))])
     \<and> (\<forall>pk. filtered_inputs inputs \<noteq> [] \<longrightarrow> map_of primary_keys table_name = Some pk \<longrightarrow>
          statements (calls_since w (snd (update_record e table_name record_id inputs w))) =
            [(''UPDATE '' @ table_name @ '' SET ''
                @ join '', '' (map (\<lambda>k. k @ ''=%s'') (map fst (filtered_inputs inputs)))
                @ '' WHERE '' @ pk @ ''=%s'',
              map snd (filtered_inputs inputs) @ [PInt record_id])])"
proof (intro conjI allI impI)
  show "\<forall>(k, v) \<in> set (filtered_inputs inputs).
          (k, v) \<in> set inputs \<and> v \<noteq> PNone \<and> v \<noteq> PStr [] \<and> v \<noteq> PInt 0"
    by (auto simp: filtered_inputs_set)
qed (simp_all add: assms create_record_empty update_record_empty create_record_calls
       update_record_calls)

text \<open>
  A provider with an empty city, and a listing form left blank.
\<close>

theorem create_update_drop_empty_fields_witness:
  "connect accepting (committed start) = None
   \<and> filtered_inputs [(''Provider_ID'', PInt 101), (''Name'', PStr ''Acme Foods''), (''City'', PStr '''')]
       = [(''Provider_ID'', PInt 101), (''Name'', PStr ''Acme Foods'')]
   \<and> statements (calls_since start (snd (create_record accepting ''Providers''
        [(''Provider_ID'', PInt 101), (''Name'', PStr ''Acme Foods''), (''City'', PStr '''')] start)))
       = [(''INSERT INTO Providers (Provider_ID, Name) VALUES (%s, %s)'',
           [PInt 101, PStr ''Acme Foods''])]
   \<and> statements (calls_since start (snd (update_record accepting ''Providers'' 101
        [(''Provider_ID'', PInt 101), (''Name'', PStr ''Acme Foods''), (''City'', PStr '''')] start)))
       = [(''UPDATE Providers SET Provider_ID=%s, Name=%s WHERE Provider_ID=%s'',
           [PInt 101, PStr ''Acme Foods'', PInt 101])]
   \<and> filtered_inputs [(''Name'', PStr ''''), (''Quantity'', PInt 0), (''Location'', PNone)] = []
   \<and> create_record accepting ''Food_Listings''
        [(''Name'', PStr ''''), (''Quantity'', PInt 0), (''Location'', PNone)] start
       = (Returned (),
          \<lparr>committed = 0, trace = [Connect, Cursor, CursorClose, ConnClose],
           reports = [StWarning ''No data to insert'']\<rparr>)
   \<and> update_record accepting ''Food_Listings'' 3
        [(''Name'', PStr ''''), (''Quantity'', PInt 0), (''Location'', PNone)] start
       = (Returned (),
          \<lparr>committed = 0, trace = [Connect, Cursor, CursorClose, ConnClose],
           reports = [StWarning ''No fields to update'']\<rparr>)"
proof -
  have c: "connect accepting (committed start) = None"
    by (simp add: accepting_def scripted_def)
  have f1: "filtered_inputs [(''Provider_ID'', PInt 101), (''Name'', PStr ''Acme Foods''), (''City'', PStr '''')]
       = [(''Provider_ID'', PInt 101), (''Name'', PStr ''Acme Foods'')]"
    by (simp add: filtered_inputs_def py_in_def py_eq_def)
  have f2: "filtered_inputs [(''Name'', PStr ''''), (''Quantity'', PInt 0), (''Location'', PNone)] = []"
    by (simp add: filtered_inputs_def py_in_def py_eq_def)
  have k1: "map_of primary_keys ''Providers'' = Some ''Provider_ID''"
    by (simp add: primary_keys_def)
  have k2: "map_of primary_keys ''Food_Listings'' = Some ''Food_ID''"
    by (simp add: primary_keys_def)
  show ?thesis
    using c f1 f2 k1 k2
      create_update_drop_empty_fields [OF c,
        of "[(''Provider_ID'', PInt 101), (''Name'', PStr ''Acme Foods''), (''City'', PStr '''')]"
           "''Providers''" 101]
      create_update_drop_empty_fields [OF c,
        of "[(''Name'', PStr ''''), (''Quantity'', PInt 0), (''Location'', PNone)]"
           "''Food_Listings''" 3]
    by (simp add: start_def)
qed

text \<open>
  C9. The filter compares by Python equality, so the values it drops are exactly \<open>None\<close>,
  the empty string and every number equal to zero: the integer \<open>0\<close>, the boolean \<open>False\<close>
  and the float \<open>0.0\<close>. An entry holding \<open>False\<close> or \<open>0.0\<close> is dropped, and no statement
  sent by \<open>create_record\<close> binds such a value, nor does \<open>update_record\<close> in its SET clause
  (the last bound value is the record id of the WHERE clause).
\<close>

theorem zero_like_values_dropped:
  "(py_in v [PNone, PStr [], PInt 0]
      \<longleftrightarrow> v = PNone \<or> v = PStr [] \<or> v = PInt 0 \<or> v = PBool False \<or> v = PFloat (Finite 0))
   \<and> filtered_inputs ((k, PBool False) # inputs) = filtered_inputs inputs
   \<and> filtered_inputs ((k, PFloat (Finite 0)) # inputs) = filtered_inputs inputs
   \<and> (\<forall>(q, ps) \<in> set (statements (calls_since w (snd (create_record e table_name inputs w)))).
         PInt 0 \<notin> set ps \<and> PBool False \<notin> set ps \<and> PFloat (Finite 0) \<notin> set ps)
   \<and> (\<forall>(q, ps) \<in> set (statements
                          (calls_since w (snd (update_record e table_name record_id inputs w)))).
         PInt 0 \<notin> set (butlast ps) \<and> PBool False \<notin> set (butlast ps)
         \<and> PFloat (Finite 0) \<notin> set (butlast ps))"
proof (intro conjI)
  show "py_in v [PNone, PStr [], PInt 0]
      \<longleftrightarrow> v = PNone \<or> v = PStr [] \<or> v = PInt 0 \<or> v = PBool False \<or> v = PFloat (Finite 0)"
    by (rule py_in_drop_list)
  show "filtered_inputs ((k, PBool False) # inputs) = filtered_inputs inputs"
    by (simp add: filtered_inputs_def py_in_drop_list)
  show "filtered_inputs ((k, PFloat (Finite 0)) # inputs) = filtered_inputs inputs"
    by (simp add: filtered_inputs_def py_in_drop_list)
  have s: "\<And>x. x \<in> snd ` set (filtered_inputs inputs)
             \<Longrightarrow> x \<noteq> PInt 0 \<and> x \<noteq> PBool False \<and> x \<noteq> PFloat (Finite 0)"
    by (auto simp: filtered_inputs_set)
  have s2: "\<And>a. (a, PInt 0) \<notin> set (filtered_inputs inputs)"
    "\<And>a. (a, PBool False) \<notin> set (filtered_inputs inputs)"
    "\<And>a. (a, PFloat (Finite 0)) \<notin> set (filtered_inputs inputs)"
    by (simp_all add: filtered_inputs_set)
  show "\<forall>(q, ps) \<in> set (statements (calls_since w (snd (create_record e table_name inputs w)))).
         PInt 0 \<notin> set ps \<and> PBool False \<notin> set ps \<and> PFloat (Finite 0) \<notin> set ps"
    using s by (auto simp: create_record_calls)
  show "\<forall>(q, ps) \<in> set (statements
                          (calls_since w (snd (update_record e table_name record_id inputs w)))).
         PInt 0 \<notin> set (butlast ps) \<and> PBool False \<notin> set (butlast ps)
         \<and> PFloat (Finite 0) \<notin> set (butlast ps)"
    by (auto simp: update_record_calls s2 split: option.splits)
qed

text \<open>
  A listing whose quantity is \<open>0.0\<close> and whose provider field is \<open>False\<close>.
\<close>

theorem zero_like_values_dropped_witness:
  "py_in (PBool False) [PNone, PStr [], PInt 0]
   \<and> py_in (PFloat (Finite 0)) [PNone, PStr [], PInt 0]
   \<and> statements (calls_since start (snd (create_record accepting ''Food_Listings''
        [(''Quantity'', PFloat (Finite 0)), (''Food_Name'', PStr ''Rice''), (''Provider_ID'', PBool False)]
        start)))
      = [(''INSERT INTO Food_Listings (Food_Name) VALUES (%s)'', [PStr ''Rice''])]
   \<and> statements (calls_since start (snd (update_record accepting ''Food_Listings'' 5
        [(''Quantity'', PFloat (Finite 0)), (''Food_Name'', PStr ''Rice''), (''Provider_ID'', PBool False)]
        start)))
      = [(''UPDATE Food_Listings SET Food_Name=%s WHERE Food_ID=%s'', [PStr ''Rice'', PInt 5])]"
proof -
  have a: "statements (calls_since start (snd (create_record accepting ''Food_Listings''
        [(''Quantity'', PFloat (Finite 0)), (''Food_Name'', PStr ''Rice''), (''Provider_ID'', PBool False)]
        start)))
      = [(''INSERT INTO Food_Listings (Food_Name) VALUES (%s)'', [PStr ''Rice''])]"
    by (simp add: create_record_calls filtered_inputs_def py_in_drop_list accepting_def
          scripted_def)
  have b: "statements (calls_since start (snd (update_record accepting ''Food_Listings'' 5
        [(''Quantity'', PFloat (Finite 0)), (''Food_Name'', PStr ''Rice''), (''Provider_ID'', PBool False)]
        start)))
      = [(''UPDATE Food_Listings SET Food_Name=%s WHERE Food_ID=%s'', [PStr ''Rice'', PInt 5])]"
    by (simp add: update_record_calls filtered_inputs_def py_in_drop_list accepting_def
          scripted_def primary_keys_def)
  show ?thesis
    using a b
      zero_like_values_dropped [of "PBool False" "''Provider_ID''"
        "[(''Quantity'', PFloat (Finite 0)), (''Food_Name'', PStr ''Rice''), (''Provider_ID'', PBool False)]"
        start accepting "''Food_Listings''" 5]
      zero_like_values_dropped [of "PFloat (Finite 0)" "''Quantity''"
        "[(''Quantity'', PFloat (Finite 0)), (''Food_Name'', PStr ''Rice''), (''Provider_ID'', PBool False)]"
        start accepting "''Food_Listings''" 5]
    by simp
qed

section \<open>Updating a record that does not exist\<close>

text \<open>
  C4. With a non-empty filtered field set, when the UPDATE executes, affects zero rows and is
  committed, \<open>update_record\<close> shows the warning \<open>No record found\<close> (an \<open>st.warning\<close>, not
  the \<open>st.error\<close> of a database error). The UPDATE is the only statement sent, so on a store
  where a statement that affects zero rows changes nothing, the committed store is as it was.
\<close>

theorem update_no_record_found:
  assumes "connect e (committed w) = None"
    and "map_of primary_keys table_name = Some pk"
    and "filtered_inputs inputs \<noteq> []"
    and "execute e
           (''UPDATE '' @ table_name @ '' SET ''
              @ join '', '' (map (\<lambda>k. k @ ''=%s'') (map fst (filtered_inputs inputs)))
              @ '' WHERE '' @ pk @ ''=%s'')
           (map snd (filtered_inputs inputs) @ [PInt record_id]) (committed w) = Inr (view', 0)"
    and "commit e view' = None"
    and "\<forall>q ps s s'. execute e q ps s = Inr (s', 0) \<longrightarrow> s' = s"
  shows "update_record e table_name record_id inputs w =
           (Returned (),
            \<lparr>committed = committed w,
             trace = trace w @
               [Connect, Cursor,
                Execute
                  (''UPDATE '' @ table_name @ '' SET ''
                     @ join '', '' (map (\<lambda>k. k @ ''=%s'') (map fst (filtered_inputs inputs)))
                     @ '' WHERE '' @ pk @ ''=%s'')
                  (map snd (filtered_inputs inputs) @ [PInt record_id]),
                Commit, CursorClose, ConnClose],
             reports = reports w @
               [StWarning (''No record found with '' @ pk @ '' = '' @ str_int record_id)]\<rparr>)"
proof -
  have "view' = committed w"
    using assms(4,6) by blast
  then show ?thesis
    using assms(1-5)
    by (simp add: update_record_def get_db_connection_def Let_def emit_def report_def release_def)
qed

text \<open>
  Updating provider 101 on a store that has no such provider.
\<close>

theorem update_no_record_found_witness:
  "connect orphaned (committed start) = None
   \<and> map_of primary_keys ''Providers'' = Some ''Provider_ID''
   \<and> filtered_inputs [(''Name'', PStr ''Acme Foods''), (''City'', PStr '''')]
        = [(''Name'', PStr ''Acme Foods'')]
   \<and> execute orphaned ''UPDATE Providers SET Name=%s WHERE Provider_ID=%s''
        [PStr ''Acme Foods'', PInt 101] (committed start) = Inr (0, 0)
   \<and> commit orphaned 0 = None
   \<and> update_record orphaned ''Providers'' 101 [(''Name'', PStr ''Acme Foods''), (''City'', PStr '''')] start
       = (Returned (),
          \<lparr>committed = 0,
           trace = [Connect, Cursor,
                    Execute ''UPDATE Providers SET Name=%s WHERE Provider_ID=%s''
                      [PStr ''Acme Foods'', PInt 101],
                    Commit, CursorClose, ConnClose],
           reports = [StWarning ''No record found with Provider_ID = 101'']\<rparr>)"
proof -
  have c: "connect orphaned (committed start) = None"
    by (simp add: orphaned_def scripted_def)
  have k: "map_of primary_keys ''Providers'' = Some ''Provider_ID''"
    by (simp add: primary_keys_def)
  have f: "filtered_inputs [(''Name'', PStr ''Acme Foods''), (''City'', PStr '''')]
             = [(''Name'', PStr ''Acme Foods'')]"
    by (simp add: filtered_inputs_def py_in_def py_eq_def)
  have x: "execute orphaned ''UPDATE Providers SET Name=%s WHERE Provider_ID=%s''
             [PStr ''Acme Foods'', PInt 101] (committed start) = Inr (0, 0)"
    by (simp add: orphaned_def scripted_def start_def)
  have m: "commit orphaned 0 = None"
    by (simp add: orphaned_def scripted_def)
  have z: "\<forall>q ps s s'. execute orphaned q ps s = Inr (s', 0) \<longrightarrow> s' = s"
    by (simp add: orphaned_def scripted_def)
  have s: "str_int 101 = ''101''"
    by code_simp
  show ?thesis
    using c k f x m z s
      update_no_record_found [of orphaned start "''Providers''" "''Provider_ID''"
        "[(''Name'', PStr ''Acme Foods''), (''City'', PStr '''')]" 101 0]
    by (simp add: start_def)
qed

section \<open>Table names outside the fixed set\<close>

lemma delete_record_unknown_calls:
  "map_of primary_keys table_name = None \<Longrightarrow>
     statements (calls_since w (snd (delete_record e table_name record_id w))) = []"
  by (simp add: delete_record_def get_db_connection_def Let_def emit_def report_def release_def
        on_exception_def calls_since_def split: option.splits)

lemma unknown_table:
  "table_name \<notin> {''Food_Listings'', ''Providers'', ''Receivers'', ''Claims''}
     \<Longrightarrow> map_of primary_keys table_name = None"
  by (simp add: primary_keys_def)

text \<open>
  C6 (as amended). For a table name outside the fixed set, \<open>update_record\<close> and
  \<open>delete_record\<close> send no statement: the primary-key lookup raises \<open>KeyError\<close>, which the
  general handler reports as \<open>Unexpected error\<close> with the table name. \<open>create_record\<close> looks
  nothing up: with a non-empty filtered field set it sends the INSERT built with the name it
  was given.
\<close>

theorem unknown_table_update_delete_rejected:
  assumes "table_name \<notin> {''Food_Listings'', ''Providers'', ''Receivers'', ''Claims''}"
  shows
    "statements (calls_since w (snd (update_record e table_name record_id inputs w))) = []
     \<and> statements (calls_since w (snd (delete_record e table_name record_id w))) = []
     \<and> (connect e (committed w) = None \<longrightarrow>
          update_record e table_name record_id inputs w =
            (Returned (),
             \<lparr>committed = committed w,
              trace = trace w @ [Connect, Cursor, CursorClose, ConnClose],
              reports = reports w @ [StError ''Unexpected error: '' (KeyError table_name)]\<rparr>)
          \<and> delete_record e table_name record_id w =
            (Returned (),
             \<lparr>committed = committed w,
              trace = trace w @ [Connect, Cursor, CursorClose, ConnClose],
              reports = reports w @ [StError ''Unexpected error: '' (KeyError table_name)]\<rparr>))
     \<and> (connect e (committed w) = None \<longrightarrow> filtered_inputs inputs \<noteq> [] \<longrightarrow>
          statements (calls_since w (snd (create_record e table_name inputs w))) =
            [(''INSERT INTO '' @ table_name @ '' (''
                @ join '', '' (map fst (filtered_inputs inputs)) @ '') VALUES (''
                @ join '', '' (replicate (length (filtered_inputs inputs)) ''%s'') @ '')'',
              map snd (filtered_inputs inputs))])"
proof -
  have k: "map_of primary_keys table_name = None"
    using assms by (rule unknown_table)
  have u: "statements (calls_since w (snd (update_record e table_name record_id inputs w))) = []"
    by (simp add: update_record_calls k)
  have d: "statements (calls_since w (snd (delete_record e table_name record_id w))) = []"
    by (simp add: delete_record_unknown_calls k)
  have r: "connect e (committed w) = None \<longrightarrow>
          update_record e table_name record_id inputs w =
            (Returned (),
             \<lparr>committed = committed w,
              trace = trace w @ [Connect, Cursor, CursorClose, ConnClose],
              reports = reports w @ [StError ''Unexpected error: '' (KeyError table_name)]\<rparr>)
          \<and> delete_record e table_name record_id w =
            (Returned (),
             \<lparr>committed = committed w,
              trace = trace w @ [Connect, Cursor, CursorClose, ConnClose],
              reports = reports w @ [StError ''Unexpected error: '' (KeyError table_name)]\<rparr>)"
    by (simp add: k update_record_def delete_record_def get_db_connection_def Let_def emit_def
          report_def release_def on_exception_def)
  have c: "connect e (committed w) = None \<longrightarrow> filtered_inputs inputs \<noteq> [] \<longrightarrow>
          statements (calls_since w (snd (create_record e table_name inputs w))) =
            [(''INSERT INTO '' @ table_name @ '' (''
                @ join '', '' (map fst (filtered_inputs inputs)) @ '') VALUES (''
                @ join '', '' (replicate (length (filtered_inputs inputs)) ''%s'') @ '')'',
              map snd (filtered_inputs inputs))]"
    by (simp add: create_record_calls)
  from u d r c show ?thesis by blast
qed

text \<open>
  The table \<open>Menu\<close>, which is not one of the four.
\<close>

theorem unknown_table_update_delete_rejected_witness:
  "''Menu'' \<notin> {''Food_Listings'', ''Providers'', ''Receivers'', ''Claims''}
   \<and> connect rejecting (committed start) = None
   \<and> filtered_inputs [(''Name'', PStr ''Soup'')] = [(''Name'', PStr ''Soup'')]
   \<and> update_record rejecting ''Menu'' 4 [(''Name'', PStr ''Soup'')] start =
        (Returned (),
         \<lparr>committed = 0, trace = [Connect, Cursor, CursorClose, ConnClose],
          reports = [StError ''Unexpected error: '' (KeyError ''Menu'')]\<rparr>)
   \<and> delete_record rejecting ''Menu'' 4 start =
        (Returned (),
         \<lparr>committed = 0, trace = [Connect, Cursor, CursorClose, ConnClose],
          reports = [StError ''Unexpected error: '' (KeyError ''Menu'')]\<rparr>)
   \<and> statements (calls_since start (snd (create_record rejecting ''Menu'' [(''Name'', PStr ''Soup'')] start)))
        = [(''INSERT INTO Menu (Name) VALUES (%s)'', [PStr ''Soup''])]"
proof -
  have t: "''Menu'' \<notin> {''Food_Listings'', ''Providers'', ''Receivers'', ''Claims''}"
    by simp
  have c: "connect rejecting (committed start) = None"
    by (simp add: rejecting_def scripted_def)
  have f: "filtered_inputs [(''Name'', PStr ''Soup'')] = [(''Name'', PStr ''Soup'')]"
    by (simp add: filtered_inputs_def py_in_def py_eq_def)
  show ?thesis
    using t c f
      unknown_table_update_delete_rejected [OF t, of start rejecting 4 "[(''Name'', PStr ''Soup'')]"]
    by (simp add: start_def)
qed

text \<open>
  C6 as stated fails for \<open>create_record\<close>: the INSERT into the unknown table is sent, and
  the error shown is the one the server raises.
\<close>

theorem create_unknown_table_counterexample:
  "create_record rejecting ''Menu'' [(''Name'', PStr ''Soup'')] start =
     (Returned (),
      \<lparr>committed = 0,
       trace = [Connect, Cursor,
                Execute ''INSERT INTO Menu (Name) VALUES (%s)'' [PStr ''Soup''],
                CursorClose, ConnClose],
       reports = [StError ''Error creating record: ''
                    (MySQLError ''You have an error in your SQL syntax'')]\<rparr>)"
  by (simp add: create_record_def get_db_connection_def Let_def emit_def report_def release_def
        on_exception_def filtered_inputs_def py_in_def py_eq_def rejecting_def scripted_def
        start_def)

section \<open>Analysis queries: the bound parameter\<close>

text \<open>
  C8 (as amended). For a known analysis name, with the connection open, \<open>analysis_query\<close>
  executes the registered template through \<open>run_query\<close> exactly once, and binds the parameter
  positionally exactly when the caller supplied a parameter that is true as a condition (not
  \<open>None\<close>, not the empty string), whatever the template.
\<close>

theorem analysis_query_binds_supplied_parameter:
  assumes "map_of queries option = Some template"
    and "connect e (committed w) = None"
  shows "calls_since w (snd (analysis_query e option param w)) =
           [Connect, ReadSql template (if truthy param then Some [param] else None)] @
           (case read_sql e template (if truthy param then Some [param] else None) (committed w) of
              Inl ex \<Rightarrow> []
            | Inr df \<Rightarrow> [ConnClose])"
  using assms
  by (simp add: analysis_query_def run_query_def get_db_connection_def emit_def report_def
        calls_since_def split: sum.splits)

text \<open>The total of the listings, asked for with a city, on a store with listings.\<close>

theorem analysis_query_binds_supplied_parameter_witness:
  "map_of queries ''Total Food Quantity Available''
     = Some ''SELECT SUM(Quantity) AS Total_Food_Quantity FROM Food_Listings;''
   \<and> connect stocked (committed start) = None
   \<and> calls_since start
        (snd (analysis_query stocked ''Total Food Quantity Available'' (PStr ''Springfield'') start))
       = [Connect,
          ReadSql ''SELECT SUM(Quantity) AS Total_Food_Quantity FROM Food_Listings;''
            (Some [PStr ''Springfield'']),
          ConnClose]"
proof -
  have q: "map_of queries ''Total Food Quantity Available''
             = Some ''SELECT SUM(Quantity) AS Total_Food_Quantity FROM Food_Listings;''"
    by (simp add: queries_def)
  have c: "connect stocked (committed start) = None"
    by (simp add: stocked_def scripted_def)
  show ?thesis
    using q c analysis_query_binds_supplied_parameter [OF q c, of "PStr ''Springfield''"]
    by (simp add: stocked_def scripted_def)
qed

text \<open>
  C8 as stated fails in both directions: a parameter given with a template that has no
  placeholder is bound, and the one template that has a placeholder is executed with no
  parameter when the city is left empty.
\<close>

theorem analysis_query_parameter_counterexample:
  "\<not> has_placeholder ''SELECT SUM(Quantity) AS Total_Food_Quantity FROM Food_Listings;''
   \<and> calls_since start
        (snd (analysis_query stocked ''Total Food Quantity Available'' (PStr ''Springfield'') start))
       = [Connect,
          ReadSql ''SELECT SUM(Quantity) AS Total_Food_Quantity FROM Food_Listings;''
            (Some [PStr ''Springfield'']),
          ConnClose]
   \<and> has_placeholder
        (''\<newline>'' @
         ''            SELECT Name, Contact, Address\<newline>'' @
         ''            FROM Providers\<newline>'' @
         ''            WHERE City = %s;\<newline>'' @
         ''        '')
   \<and> calls_since start
        (snd (analysis_query stocked ''Provider Contact Info by City'' (PStr '''') start))
       = [Connect,
          ReadSql
            (''\<newline>'' @
             ''            SELECT Name, Contact, Address\<newline>'' @
             ''            FROM Providers\<newline>'' @
             ''            WHERE City = %s;\<newline>'' @
             ''        '')
            None,
          ConnClose]"
  by (simp add: analysis_query_def run_query_def get_db_connection_def emit_def report_def
        calls_since_def queries_def stocked_def scripted_def start_def)

section \<open>Analysis queries: charts\<close>

text \<open>
  C7. For a known analysis name, if the table \<open>run_query\<close> returns is empty then
  \<open>analysis_query\<close> returns that table with no chart, whether or not the name has a chart
  rule; whenever it returns a chart, the table is not empty and the chart is the one the
  name's chart rule builds from the table; and a non-empty table of a name with a chart rule
  gets that chart.
\<close>

theorem analysis_query_chart_only_for_nonempty:
  assumes "map_of queries option = Some template"
    and "run_query e template (if truthy param then Some [param] else None) w = (Returned df, w')"
  shows "(df_empty df \<longrightarrow> analysis_query e option param w = (Returned (Some df, None), w'))
     \<and> (\<forall>fig. analysis_query e option param w = (Returned (Some df, Some fig), w') \<longrightarrow>
           \<not> df_empty df \<and> (\<exists>rule. map_of charts option = Some rule \<and> fig = rule df))
     \<and> (\<forall>rule. \<not> df_empty df \<longrightarrow> map_of charts option = Some rule \<longrightarrow>
           analysis_query e option param w = (Returned (Some df, Some (rule df)), w'))"
proof -
  have a: "analysis_query e option param w =
             (Returned (Some df,
                (case map_of charts option of
                   Some rule \<Rightarrow> if \<not> df_empty df then Some (rule df) else None
                 | None \<Rightarrow> None)), w')"
    by (simp add: analysis_query_def assms)
  show ?thesis
    unfolding a by (cases "map_of charts option") auto
qed

text \<open>
  \<open>Top Food Types Available\<close>, which has a chart rule, on a store with no listings and on
  a store with some.
\<close>

theorem analysis_query_chart_only_for_nonempty_witness:
  "df_empty \<lparr>columns = [''Food_Type'', ''Count''], rows = []\<rparr>
   \<and> fst (analysis_query vacant ''Top Food Types Available'' PNone start)
     = Returned (Some \<lparr>columns = [''Food_Type'', ''Count''], rows = []\<rparr>, None)
   \<and> \<not> df_empty \<lparr>columns = [''Food_Type'', ''Count''],
                   rows = [[PStr ''Vegan'', PInt 3], [PStr ''Vegetarian'', PInt 2]]\<rparr>
   \<and> fst (analysis_query stocked ''Top Food Types Available'' PNone start)
     = Returned
          (Some \<lparr>columns = [''Food_Type'', ''Count''],
                 rows = [[PStr ''Vegan'', PInt 3], [PStr ''Vegetarian'', PInt 2]]\<rparr>,
           Some (px_bar
                   \<lparr>columns = [''Food_Type'', ''Count''],
                    rows = [[PStr ''Vegan'', PInt 3], [PStr ''Vegetarian'', PInt 2]]\<rparr>
                   ''Food_Type'' [''Count''] None ''Top Food Types Available''
                   (Some ''Food_Type'') ''px.colors.qualitative.Pastel1''))"
proof -
  obtain template where q: "map_of queries ''Top Food Types Available'' = Some template"
    by (simp add: queries_def)
  have c: "map_of charts ''Top Food Types Available'' =
             Some (\<lambda>df. px_bar df ''Food_Type'' [''Count''] None ''Top Food Types Available''
                           (Some ''Food_Type'') ''px.colors.qualitative.Pastel1'')"
    by (simp add: charts_def)
  have v: "run_query vacant template (if truthy PNone then Some [PNone] else None) start
             = (Returned \<lparr>columns = [''Food_Type'', ''Count''], rows = []\<rparr>,
                snd (run_query vacant template None start))"
    by (simp add: run_query_def get_db_connection_def vacant_def scripted_def)
  have s: "run_query stocked template (if truthy PNone then Some [PNone] else None) start
             = (Returned \<lparr>columns = [''Food_Type'', ''Count''],
                          rows = [[PStr ''Vegan'', PInt 3], [PStr ''Vegetarian'', PInt 2]]\<rparr>,
                snd (run_query stocked template None start))"
    by (simp add: run_query_def get_db_connection_def stocked_def scripted_def)
  have e1: "df_empty \<lparr>columns = [''Food_Type'', ''Count''], rows = []\<rparr>"
    by (simp add: df_empty_def)
  have e2: "\<not> df_empty \<lparr>columns = [''Food_Type'', ''Count''],
                   rows = [[PStr ''Vegan'', PInt 3], [PStr ''Vegetarian'', PInt 2]]\<rparr>"
    by (simp add: df_empty_def)
  have r1: "analysis_query vacant ''Top Food Types Available'' PNone start
              = (Returned (Some \<lparr>columns = [''Food_Type'', ''Count''], rows = []\<rparr>, None),
                 snd (run_query vacant template None start))"
    using analysis_query_chart_only_for_nonempty [OF q v] e1 by blast
  have r2: "analysis_query stocked ''Top Food Types Available'' PNone start
              = (Returned
                   (Some \<lparr>columns = [''Food_Type'', ''Count''],
                          rows = [[PStr ''Vegan'', PInt 3], [PStr ''Vegetarian'', PInt 2]]\<rparr>,
                    Some (px_bar
                            \<lparr>columns = [''Food_Type'', ''Count''],
                             rows = [[PStr ''Vegan'', PInt 3], [PStr ''Vegetarian'', PInt 2]]\<rparr>
                            ''Food_Type'' [''Count''] None ''Top Food Types Available''
                            (Some ''Food_Type'') ''px.colors.qualitative.Pastel1'')),
                 snd (run_query stocked template None start))"
    using analysis_query_chart_only_for_nonempty [OF q s] e2 c by blast
  show ?thesis
    unfolding r1 r2 fst_conv using e1 e2 by blast
qed

end
